theory Spec2Isabelle
  imports Main
begin

section \<open>Futures and the single-worker executor\<close>

text \<open>
  \<^verbatim>\<open>app.py\<close> keeps one \<^verbatim>\<open>concurrent.futures.Future\<close> in \<^verbatim>\<open>app.future\<close> and
  runs \<^verbatim>\<open>app.model.run_model\<close> on a \<^verbatim>\<open>ThreadPoolExecutor(max_workers=1)\<close>.

  The Trainable is opaque: one execution either returns a string or raises an exception
  \<open>e\<close> that is an instance of \<^verbatim>\<open>Exception\<close>; \<open>Raised m\<close> carries \<open>m = str(e)\<close>.
  (\<^verbatim>\<open>model.run_model\<close> of this repository returns an f-string; what its libraries raise
  are instances of \<^verbatim>\<open>Exception\<close>.) The model stops there: a \<^verbatim>\<open>BaseException\<close> that
  is no \<^verbatim>\<open>Exception\<close>, such as \<^verbatim>\<open>SystemExit\<close>, would be stored in the future by the
  executor and raised again by \<^verbatim>\<open>fut.result()\<close> past the \<^verbatim>\<open>except Exception\<close> of lines 78
  and 105, out of the handler; and nothing in \<^verbatim>\<open>app.py\<close> cancels a future. Every
  statement below about \<open>Raised m\<close> is about an instance of \<^verbatim>\<open>Exception\<close>.
\<close>

datatype outcome = Returned string | Raised string

text \<open>
  The states of a \<^verbatim>\<open>Future\<close>: created by \<^verbatim>\<open>submit\<close> as \<open>PENDING\<close>, set to
  \<open>RUNNING\<close> by the worker thread when it takes the work item, and to \<open>FINISHED\<close> by
  \<^verbatim>\<open>set_result\<close> or \<^verbatim>\<open>set_exception\<close>.
\<close>

datatype fstate = PENDING | RUNNING | FINISHED outcome

text \<open>\<^verbatim>\<open>Future.running()\<close> and \<^verbatim>\<open>Future.done()\<close>.\<close>

fun running :: "fstate \<Rightarrow> bool" where
  "running RUNNING = True"
| "running _ = False"

fun fut_done :: "fstate \<Rightarrow> bool" where
  "fut_done (FINISHED _) = True"
| "fut_done _ = False"

text \<open>A handle is active while its work is submitted and not yet finished.\<close>

fun active :: "fstate \<Rightarrow> bool" where
  "active PENDING = True"
| "active RUNNING = True"
| "active (FINISHED _) = False"

section \<open>The application object\<close>

text \<open>
  A module object is modelled by the names of its attributes; \<^verbatim>\<open>app.model\<close> is
  \<open>None\<close> when \<^verbatim>\<open>import model\<close> failed.
\<close>

type_synonym py_module = "string list"

definition hasattr :: "py_module \<Rightarrow> string \<Rightarrow> bool" where
  "hasattr m name = (name \<in> set m)"

text \<open>
  The attributes of the Flask application that \<^verbatim>\<open>create_app\<close> sets and its handlers
  use. \<^verbatim>\<open>Future\<close> objects live in the store \<open>futures\<close>; a handle is an index into
  it, so that two references to one object are equal handles. \<open>work_queue\<close> and
  \<open>worker\<close> are \<^verbatim>\<open>app.executor\<close>: the submitted work items not yet taken, and the work
  item its only worker thread is executing. \<^verbatim>\<open>app.future_lock\<close> has no field: a
  \<^verbatim>\<open>with app.future_lock\<close> block is one step of the model.
\<close>

record flask_app =
  config :: "string \<rightharpoonup> string"
  error_handlers :: "string list"
  routes :: "string list"
  model :: "py_module option"
  futures :: "fstate list"
  work_queue :: "nat list"
  worker :: "nat option"
  future :: "nat option"
  logger :: "(string \<times> string) list"

datatype py_error = UnboundLocalError string | AttributeError string

text \<open>
  Lines 24 to 47 and the route decorators: the application object as the body of
  \<^verbatim>\<open>create_app\<close> sets it up after line 24. \<open>imported\<close> is what \<^verbatim>\<open>import model\<close>
  gave (\<open>None\<close> when it raised). The first route is the one \<^verbatim>\<open>Flask(...)\<close> itself
  registers for static files.
\<close>

definition new_app :: "(string \<rightharpoonup> string) option \<Rightarrow> py_module option \<Rightarrow> flask_app" where
  "new_app cfg imported =
     \<lparr> config = (case cfg of None \<Rightarrow> Map.empty | Some c \<Rightarrow> Map.empty ++ c),
       error_handlers = [],
       routes = [''/static/<path:filename>'', ''/'', ''/ping'', ''/status''],
       model = imported,
       futures = [],
       work_queue = [],
       worker = None,
       future = None,
       logger = [] \<rparr>"

text \<open>
  Reading a local variable of a function frame. A name that is assigned anywhere in a
  function body is local to it for the whole body, and unbound until the assignment runs.
\<close>

definition load_local :: "(string \<rightharpoonup> 'a) \<Rightarrow> string \<Rightarrow> py_error + 'a" where
  "load_local frame name =
     (case frame name of None \<Rightarrow> Inl (UnboundLocalError name) | Some v \<Rightarrow> Inr v)"

text \<open>
  \<^verbatim>\<open>create_app\<close>. Its frame starts with \<^verbatim>\<open>app\<close> unbound (\<^verbatim>\<open>app\<close> is assigned at line
  24, hence local). The first statement is the decorated definition of
  \<^verbatim>\<open>handle_exception\<close>, whose decorator expression \<^verbatim>\<open>app.errorhandler(Exception)\<close> reads
  \<^verbatim>\<open>app\<close> (line 12). Only then would line 24 bind \<^verbatim>\<open>app\<close> to a new application, on
  which the rest of the body works.
\<close>

definition create_app :: "(string \<rightharpoonup> string) option \<Rightarrow> py_module option \<Rightarrow> py_error + flask_app" where
  "create_app cfg imported =
     (let frame = Map.empty in
      case load_local frame ''app'' of
        Inl e \<Rightarrow> Inl e
      | Inr (a0 :: flask_app) \<Rightarrow>
          (let frame = frame(''app'' \<mapsto> new_app cfg imported) in
           load_local frame ''app''))"

text \<open>Line 117, at module level: \<^verbatim>\<open>app = create_app()\<close>.\<close>

definition module_app :: "py_module option \<Rightarrow> py_error + flask_app" where
  "module_app imported = create_app None imported"

section \<open>The executor\<close>

text \<open>
  \<^verbatim>\<open>app.executor.submit(_wrap)\<close>: a new pending \<^verbatim>\<open>Future\<close>, and its work item at the
  end of the queue.
\<close>

definition executor_submit :: "flask_app \<Rightarrow> nat \<times> flask_app" where
  "executor_submit a =
     (let f = length (futures a) in
      (f, a\<lparr>futures := futures a @ [PENDING], work_queue := work_queue a @ [f]\<rparr>))"

text \<open>
  \<^verbatim>\<open>_wrap\<close> (lines 54 to 61), given what \<^verbatim>\<open>app.model.run_model()\<close> did: it logs, and
  returns the result or raises the exception again.
\<close>

definition wrap :: "outcome \<Rightarrow> flask_app \<Rightarrow> outcome \<times> flask_app" where
  "wrap r a =
     (case r of
        Returned res \<Rightarrow>
          (Returned res, a\<lparr>logger := logger a @ [(''INFO'', ''Model run finished: '' @ res)]\<rparr>)
      | Raised m \<Rightarrow>
          (Raised m, a\<lparr>logger := logger a @ [(''ERROR'', ''Model run failed'')]\<rparr>))"

text \<open>
  The worker thread of the executor. It takes the first work item when it is idle and the
  item's future is pending (\<^verbatim>\<open>set_running_or_notify_cancel\<close>), runs \<^verbatim>\<open>_wrap\<close>, and
  stores what \<^verbatim>\<open>_wrap\<close> returned or raised in the future it is running
  (\<^verbatim>\<open>set_result\<close>, \<^verbatim>\<open>set_exception\<close>).
\<close>

definition worker_start :: "flask_app \<Rightarrow> flask_app" where
  "worker_start a =
     (case worker a of
        Some _ \<Rightarrow> a
      | None \<Rightarrow>
          (case work_queue a of
             [] \<Rightarrow> a
           | h # q \<Rightarrow>
               if h < length (futures a) \<and> futures a ! h = PENDING
               then a\<lparr>futures := (futures a)[h := RUNNING], work_queue := q, worker := Some h\<rparr>
               else a))"

definition worker_finish :: "outcome \<Rightarrow> flask_app \<Rightarrow> flask_app" where
  "worker_finish r a =
     (case worker a of
        None \<Rightarrow> a
      | Some h \<Rightarrow>
          if h < length (futures a) \<and> futures a ! h = RUNNING
          then (let (res, a1) = wrap r a in
                a1\<lparr>futures := (futures a1)[h := FINISHED res], worker := None\<rparr>)
          else a)"

section \<open>The handlers\<close>

text \<open>
  \<^verbatim>\<open>_submit_model\<close>. \<open>submit_locked\<close> is the block under the lock (lines 50 to 67);
  line 68, \<^verbatim>\<open>return app.future\<close>, is outside the block and reads the slot again, so the
  function returns an optional handle. \<open>submit_model\<close> is the call with no other thread
  between the block and the return.
\<close>

definition slot_free :: "flask_app \<Rightarrow> bool" where
  "slot_free a = (case future a of None \<Rightarrow> True | Some h \<Rightarrow> fut_done (futures a ! h))"

definition has_run_model :: "flask_app \<Rightarrow> bool" where
  "has_run_model a = (case model a of None \<Rightarrow> False | Some m \<Rightarrow> hasattr m ''run_model'')"

definition submit_locked :: "flask_app \<Rightarrow> flask_app" where
  "submit_locked a =
     (if slot_free a then
        (if has_run_model a then
           (let a1 = a\<lparr>logger := logger a @ [(''INFO'', ''Submitting background model run'')]\<rparr>;
                (f, a2) = executor_submit a1
            in a2\<lparr>future := Some f\<rparr>)
         else
           (let f = length (futures a) in
            a\<lparr>futures := futures a @ [FINISHED (Returned ''No model available'')],
              future := Some f\<rparr>))
      else a)"

definition submit_model :: "flask_app \<Rightarrow> nat option \<times> flask_app" where
  "submit_model a = (let a' = submit_locked a in (future a', a'))"

datatype payload = Payload (state: string) (result: "string option")

datatype response =
    Rendered string string
  | Body string string
  | Json payload

text \<open>
  \<^verbatim>\<open>home\<close> after \<^verbatim>\<open>fut = _submit_model()\<close>. \<open>home_inspect\<close> is lines 73 to 84 on the
  state of \<^verbatim>\<open>fut\<close>: the output, and whether the branch that clears the slot was taken.
  \<open>home_clear\<close> is the block of lines 81 and 82. The reads of \<^verbatim>\<open>fut\<close> are not under the
  lock; \<open>home_rest\<close> and \<open>home\<close> are the handler with no other thread in between.
  \<open>Rendered t v\<close> is \<^verbatim>\<open>render_template(t, output=v)\<close>.
\<close>

fun home_inspect :: "fstate \<Rightarrow> string \<times> bool" where
  "home_inspect RUNNING = (''Model is running (background). Refresh to see result.'', False)"
| "home_inspect (FINISHED (Returned r)) = (r, True)"
| "home_inspect (FINISHED (Raised m)) = (''Model error: '' @ m, True)"
| "home_inspect PENDING = (''Model started (background). Refresh to see result.'', False)"

text \<open>
  The two tests of \<^verbatim>\<open>home\<close> read the future at two moments, \<open>s1\<close> at \<^verbatim>\<open>fut.running()\<close>
  and \<open>s2\<close> at \<^verbatim>\<open>fut.done()\<close> and \<^verbatim>\<open>fut.result()\<close>, and the worker may advance it in
  between (\<open>advanced\<close>).
\<close>

fun advanced :: "fstate \<Rightarrow> fstate \<Rightarrow> bool" where
  "advanced PENDING s2 = True"
| "advanced RUNNING s2 = (s2 \<noteq> PENDING)"
| "advanced (FINISHED oc) s2 = (s2 = FINISHED oc)"

definition home_reads :: "fstate \<Rightarrow> fstate \<Rightarrow> string \<times> bool" where
  "home_reads s1 s2 =
     (if running s1 then home_inspect RUNNING
      else if fut_done s2 then home_inspect s2
      else home_inspect PENDING)"

definition home_clear :: "flask_app \<Rightarrow> flask_app" where
  "home_clear a = a\<lparr>future := None\<rparr>"

definition home_rest :: "nat option \<Rightarrow> flask_app \<Rightarrow> (py_error + response) \<times> flask_app" where
  "home_rest fut a =
     (case fut of
        None \<Rightarrow> (Inl (AttributeError ''running''), a)
      | Some h \<Rightarrow>
          (let (output, finished) = home_inspect (futures a ! h);
               a' = (if finished then home_clear a else a)
           in (Inr (Rendered ''index.html'' output), a')))"

definition home :: "flask_app \<Rightarrow> (py_error + response) \<times> flask_app" where
  "home a = (let (fut, a1) = submit_model a in home_rest fut a1)"

definition ping :: "flask_app \<Rightarrow> response \<times> flask_app" where
  "ping a = (Body ''ok'' ''text/plain'', a)"

text \<open>
  \<^verbatim>\<open>status\<close> (lines 92 to 111). \<open>status_payload\<close> is the chain of tests on the future in
  the slot, in the order of the source; \<open>Json p\<close> is the response whose body is
  \<^verbatim>\<open>json.dumps(p)\<close>.
\<close>

fun status_payload :: "fstate \<Rightarrow> payload" where
  "status_payload RUNNING = Payload ''running'' None"
| "status_payload (FINISHED (Returned r)) = Payload ''done'' (Some r)"
| "status_payload (FINISHED (Raised m)) = Payload ''done'' (Some (''error: '' @ m))"
| "status_payload PENDING = Payload ''unknown'' None"

definition status :: "flask_app \<Rightarrow> response \<times> flask_app" where
  "status a =
     (let p = (case future a of
                 None \<Rightarrow> Payload ''idle'' None
               | Some h \<Rightarrow> status_payload (futures a ! h))
      in (Json p, a))"

section \<open>Interleavings\<close>

text \<open>
  What the threads of the server do to the application object, one step each: a request
  runs the locked block of \<^verbatim>\<open>_submit_model\<close>, a request in \<^verbatim>\<open>home\<close> runs the block that
  clears the slot, a request runs \<^verbatim>\<open>status\<close>, the worker takes a work item, the worker
  finishes the item it runs with what the Trainable did. A run is any sequence of them.
\<close>

datatype event = Submit_or_get | Home_clear | Status | Worker_start | Worker_finish outcome

fun step :: "event \<Rightarrow> flask_app \<Rightarrow> flask_app" where
  "step Submit_or_get a = submit_locked a"
| "step Home_clear a = home_clear a"
| "step Status a = snd (status a)"
| "step Worker_start a = worker_start a"
| "step (Worker_finish r) a = worker_finish r a"

definition run :: "event list \<Rightarrow> flask_app \<Rightarrow> flask_app" where
  "run es a = fold step es a"


text \<open>\<^verbatim>\<open>status\<close> called \<open>n\<close> times in a row: the responses, and the application after them.\<close>

primrec poll :: "nat \<Rightarrow> flask_app \<Rightarrow> response list \<times> flask_app" where
  "poll 0 a = ([], a)"
| "poll (Suc n) a = (let (r, a1) = status a; (rs, a2) = poll n a1 in (r # rs, a2))"

section \<open>Invariants and example states\<close>

text \<open>Every active handle of the store is the one in the slot.\<close>

definition stored_only :: "flask_app \<Rightarrow> bool" where
  "stored_only a =
     (\<forall>h < length (futures a). active (futures a ! h) \<longrightarrow> future a = Some h)"

text \<open>
  With no \<^verbatim>\<open>run_model\<close> to call, the executor is never used and every future ever made
  is the finished one of lines 65 and 66.
\<close>

definition no_model_inv :: "flask_app \<Rightarrow> bool" where
  "no_model_inv a =
     (\<not> has_run_model a \<and> work_queue a = [] \<and> worker a = None \<and>
      list_all (\<lambda>x. x = FINISHED (Returned ''No model available'')) (futures a) \<and>
      (case future a of None \<Rightarrow> True | Some h \<Rightarrow> h < length (futures a)))"

text \<open>The slot holds no handle older than the \<open>n\<close>-th future.\<close>

definition fresh_from :: "nat \<Rightarrow> flask_app \<Rightarrow> bool" where
  "fresh_from n a =
     (n \<le> length (futures a) \<and> (case future a of None \<Rightarrow> True | Some f \<Rightarrow> n \<le> f))"

text \<open>
  The module of \<^verbatim>\<open>model.py\<close>, by the names it binds, and the application lines 24 to 47
  would build around it; the same application one submission later, with the job taken by
  the worker, and with the job finished.
\<close>

definition model_py :: py_module where
  "model_py = [''np'', ''pd'', ''load_wine'', ''train_test_split'', ''StandardScaler'',
     ''RandomForestClassifier'', ''accuracy_score'', ''load_data'', ''run_model'']"

definition wine_app :: flask_app where
  "wine_app = new_app None (Some model_py)"

definition wine_pending :: flask_app where
  "wine_pending = run [Submit_or_get] wine_app"

definition wine_running :: flask_app where
  "wine_running = run [Submit_or_get, Worker_start] wine_app"

definition wine_done :: flask_app where
  "wine_done =
     run [Submit_or_get, Worker_start,
          Worker_finish (Returned ''Model trained successfully! Accuracy = 1.00'')] wine_app"

definition wine_failed :: flask_app where
  "wine_failed =
     run [Submit_or_get, Worker_start, Worker_finish (Raised ''bad data'')] wine_app"

text \<open>
  Four \<^verbatim>\<open>GET /\<close> requests A, B, C and D. A and B each run line 72 while the first job
  is pending and get the same handle; the worker runs the job to its end; A runs the rest
  of \<^verbatim>\<open>home\<close>; C runs \<^verbatim>\<open>home\<close> from start to end; the worker takes C's job; B runs the
  rest of \<^verbatim>\<open>home\<close>; D runs \<^verbatim>\<open>home\<close> from start to end. The value is the handles of A
  and B, the four responses in the order A, C, B, D, and the application at the end.
\<close>

definition racing_requests ::
  "nat option \<times> nat option \<times> (py_error + response) list \<times> flask_app" where
  "racing_requests =
     (let (fut_a, s1) = submit_model wine_app;
          (fut_b, s2) = submit_model s1;
          s3 = worker_finish (Returned ''ok'') (worker_start s2);
          (page_a, s4) = home_rest fut_a s3;
          (page_c, s5) = home s4;
          s6 = worker_start s5;
          (page_b, s7) = home_rest fut_b s6;
          (page_d, s8) = home s7
      in (fut_a, fut_b, [page_a, page_c, page_b, page_d], s8))"

text \<open>
  Two \<^verbatim>\<open>GET /\<close> requests A and B that got the same handle while the job was pending, and
  run the rest of \<^verbatim>\<open>home\<close> one after the other once the job has finished: their
  handles, their responses, and the application after A and after B.
\<close>

definition two_readers ::
  "nat option \<times> nat option \<times> (py_error + response) \<times> (py_error + response) \<times>
   flask_app \<times> flask_app" where
  "two_readers =
     (let (fut_a, s1) = submit_model wine_app;
          (fut_b, s2) = submit_model s1;
          s3 = worker_finish (Returned ''ok'') (worker_start s2);
          (page_a, s4) = home_rest fut_a s3;
          (page_b, s5) = home_rest fut_b s4
      in (fut_a, fut_b, page_a, page_b, s4, s5))"

section \<open>Evaluation and basic facts\<close>

lemmas app_defs =
  run_def new_app_def model_py_def wine_app_def submit_locked_def slot_free_def
  has_run_model_def hasattr_def executor_submit_def worker_start_def worker_finish_def
  wrap_def submit_model_def status_def home_def home_rest_def home_clear_def

lemma wine_pending_eval:
  "futures wine_pending = [PENDING] \<and> future wine_pending = Some 0 \<and>
   work_queue wine_pending = [0] \<and> worker wine_pending = None"
  by (simp add: wine_pending_def app_defs)

lemma wine_running_eval:
  "futures wine_running = [RUNNING] \<and> future wine_running = Some 0 \<and>
   work_queue wine_running = [] \<and> worker wine_running = Some 0"
  by (simp add: wine_running_def app_defs)

lemma wine_done_eval:
  "futures wine_done = [FINISHED (Returned ''Model trained successfully! Accuracy = 1.00'')] \<and>
   future wine_done = Some 0 \<and> work_queue wine_done = [] \<and> worker wine_done = None"
  by (simp add: wine_done_def app_defs)

lemma wine_failed_eval:
  "futures wine_failed = [FINISHED (Raised ''bad data'')] \<and>
   future wine_failed = Some 0 \<and> work_queue wine_failed = [] \<and> worker wine_failed = None"
  by (simp add: wine_failed_def app_defs)

lemma wine_has_run_model:
  "has_run_model wine_app \<and> has_run_model wine_pending \<and> has_run_model wine_running \<and>
   has_run_model wine_done \<and> has_run_model wine_failed"
  by (simp add: wine_pending_def wine_running_def wine_done_def wine_failed_def app_defs)

text \<open>
  The equations of \<open>home_inspect\<close> and \<open>status_payload\<close> are the branches of the
  source's tests, and reading the future at two moments gives what one read gives.
\<close>

lemma home_inspect_tests:
  "home_inspect s =
     (if running s then (''Model is running (background). Refresh to see result.'', False)
      else if fut_done s then home_inspect s
      else (''Model started (background). Refresh to see result.'', False))"
  and "snd (home_inspect s) = (\<not> running s \<and> fut_done s)"
  by (cases s rule: home_inspect.cases; simp)+

lemma status_payload_tests:
  "status_payload s =
     (if running s then Payload ''running'' None
      else if fut_done s then status_payload s
      else Payload ''unknown'' None)"
  and "state (status_payload s) = ''done'' \<longleftrightarrow> \<not> running s \<and> fut_done s"
  by (cases s rule: status_payload.cases; simp)+

lemma home_reads_one_read:
  "advanced s1 s2 \<Longrightarrow> home_reads s1 s2 = home_inspect s1 \<or> home_reads s1 s2 = home_inspect s2"
  by (cases s1; cases s2) (auto simp: home_reads_def)

text \<open>No step writes to a finished future.\<close>

lemma finished_step:
  "h < length (futures a) \<Longrightarrow> futures a ! h = FINISHED oc \<Longrightarrow>
   h < length (futures (step e a)) \<and> futures (step e a) ! h = FINISHED oc"
  by (cases e)
     (auto simp: submit_locked_def executor_submit_def home_clear_def status_def
        worker_start_def worker_finish_def wrap_def Let_def nth_append nth_list_update
        split: option.splits list.splits outcome.splits)

lemma finished_run:
  "h < length (futures a) \<Longrightarrow> futures a ! h = FINISHED oc \<Longrightarrow>
   h < length (futures (run es a)) \<and> futures (run es a) ! h = FINISHED oc"
  unfolding run_def
proof (induction es arbitrary: a)
  case Nil
  then show ?case by simp
next
  case (Cons e es)
  from finished_step [OF Cons.prems]
  have "h < length (futures (step e a))" "futures (step e a) ! h = FINISHED oc" by simp_all
  from Cons.IH [OF this] show ?case by simp
qed

lemma submit_locked_active:
  "future a = Some h \<Longrightarrow> active (futures a ! h) \<Longrightarrow> submit_locked a = a"
  by (cases "futures a ! h") (simp_all add: submit_locked_def slot_free_def)

section \<open>The factory\<close>

text \<open>
  C2. For every configuration and whatever \<^verbatim>\<open>import model\<close> would give,
  \<^verbatim>\<open>create_app\<close> raises \<^verbatim>\<open>UnboundLocalError\<close> for \<^verbatim>\<open>app\<close> and returns no
  application, and so does the module-level \<^verbatim>\<open>app = create_app()\<close>.
\<close>

theorem create_app_raises:
  "create_app cfg imported = Inl (UnboundLocalError ''app'') \<and>
   module_app imported = Inl (UnboundLocalError ''app'')"
  by (simp add: create_app_def module_app_def load_local_def)

section \<open>No second dispatch while a job is active\<close>

lemma slot_free_no_active:
  "stored_only a \<Longrightarrow> slot_free a \<Longrightarrow> h < length (futures a) \<Longrightarrow> \<not> active (futures a ! h)"
  by (cases "futures a ! h") (auto simp: stored_only_def slot_free_def split: option.splits)

lemma stored_only_submit: "stored_only a \<Longrightarrow> stored_only (submit_locked a)"
proof (cases "slot_free a")
  case False
  assume "stored_only a"
  with False show ?thesis by (simp add: submit_locked_def)
next
  case True
  assume inv: "stored_only a"
  have quiet: "\<And>h. h < length (futures a) \<Longrightarrow> \<not> active (futures a ! h)"
    using slot_free_no_active [OF inv True] .
  show ?thesis
    using True quiet
    by (auto simp: stored_only_def submit_locked_def executor_submit_def Let_def nth_append
          less_Suc_eq)
qed

lemma stored_only_start: "stored_only a \<Longrightarrow> stored_only (worker_start a)"
  by (auto simp: stored_only_def worker_start_def nth_list_update
        split: option.splits list.splits)

lemma stored_only_finish: "stored_only a \<Longrightarrow> stored_only (worker_finish r a)"
  by (auto simp: stored_only_def worker_finish_def wrap_def nth_list_update
        split: option.splits outcome.splits)

lemma stored_only_step: "e \<noteq> Home_clear \<Longrightarrow> stored_only a \<Longrightarrow> stored_only (step e a)"
  by (cases e) (simp_all add: stored_only_submit stored_only_start stored_only_finish status_def)

lemma stored_only_run: "Home_clear \<notin> set es \<Longrightarrow> stored_only a \<Longrightarrow> stored_only (run es a)"
  unfolding run_def
  by (induction es arbitrary: a) (auto simp: stored_only_step)

lemma stored_only_new: "stored_only (new_app cfg imported)"
  by (simp add: stored_only_def new_app_def)

lemma stored_onlyD:
  "stored_only a \<Longrightarrow> h < length (futures a) \<Longrightarrow> active (futures a ! h) \<Longrightarrow> future a = Some h"
  by (simp add: stored_only_def)

lemma filter_at_most_one:
  assumes uniq: "\<And>i j. i < length xs \<Longrightarrow> j < length xs \<Longrightarrow> P (xs ! i) \<Longrightarrow> P (xs ! j) \<Longrightarrow> i = j"
  shows "length (filter P xs) \<le> 1"
  using uniq
proof (induction xs)
  case Nil
  then show ?case by simp
next
  case (Cons x xs)
  have tail: "i = j"
    if "i < length xs" "j < length xs" "P (xs ! i)" "P (xs ! j)" for i j
  proof -
    from that have "Suc i = Suc j" using Cons.prems [of "Suc i" "Suc j"] by simp
    then show ?thesis by simp
  qed
  show ?case
  proof (cases "P x")
    case False
    then show ?thesis using Cons.IH [OF tail] by simp
  next
    case True
    have "\<not> P y" if "y \<in> set xs" for y
    proof
      assume "P y"
      from that obtain j where "j < length xs" "xs ! j = y" by (auto simp: in_set_conv_nth)
      with True \<open>P y\<close> have "0 = Suc j" using Cons.prems [of 0 "Suc j"] by simp
      then show False by simp
    qed
    then have "filter P xs = []" by (simp add: filter_empty_conv)
    with True show ?thesis by simp
  qed
qed

lemma stored_only_count: "stored_only a \<Longrightarrow> length (filter active (futures a)) \<le> 1"
proof (rule filter_at_most_one)
  fix i j
  assume "stored_only a" "i < length (futures a)" "j < length (futures a)"
    "active (futures a ! i)" "active (futures a ! j)"
  then have "future a = Some i" "future a = Some j" by (auto dest: stored_onlyD)
  then show "i = j" by simp
qed

lemma calls_while_active:
  "future a = Some h \<Longrightarrow> active (futures a ! h) \<Longrightarrow> set cs \<subseteq> {Submit_or_get, Status} \<Longrightarrow>
   run cs a = a"
  unfolding run_def
  by (induction cs) (auto simp: submit_locked_active status_def)

text \<open>
  What holds of the dispatch: a call of \<^verbatim>\<open>_submit_model\<close> made while the future in the
  slot is pending or running returns that future and leaves the application as it was, and
  so for any sequence \<open>cs\<close> of such calls and of \<^verbatim>\<open>status\<close> polls; and in every
  interleaving \<open>es\<close> without the clearing step of \<^verbatim>\<open>home\<close>, at most one future is
  pending or running.
\<close>

lemma no_dispatch_while_active:
  "(future a = Some h \<and> active (futures a ! h) \<longrightarrow>
      submit_model a = (Some h, a) \<and>
      (set cs \<subseteq> {Submit_or_get, Status} \<longrightarrow> run cs a = a)) \<and>
   (Home_clear \<notin> set es \<longrightarrow>
      length (filter active (futures (run es (new_app cfg imported)))) \<le> 1)"
  using stored_only_count [OF stored_only_run [OF _ stored_only_new]]
  by (auto simp: submit_model_def submit_locked_active calls_while_active)

lemma racing_clears_two_pending:
  "futures (run [Submit_or_get, Worker_start, Worker_finish (Returned ''ok''), Home_clear,
       Submit_or_get, Home_clear, Submit_or_get] wine_app) =
     [FINISHED (Returned ''ok''), PENDING, PENDING]"
  by (simp add: app_defs)

text \<open>
  C1, where the code breaks it. With the requests of \<open>racing_requests\<close>, A and B hold the
  handle of the first job and both find it finished. A clears the slot, C submits a second
  job, which the worker takes, and B clears the slot again although it now holds C's
  running job (lines 81 and 82 do not look at the slot). D then finds the slot empty and
  submits a third job while the second is still running: the slot holds an active future,
  two executions are in flight, and further calls of \<^verbatim>\<open>_submit_model\<close> return the third
  handle and change nothing.
\<close>

theorem racing_requests_two_in_flight:
  "(case racing_requests of (fut_a, fut_b, pages, s) \<Rightarrow>
      fut_a = Some 0 \<and> fut_b = Some 0 \<and>
      pages = [Inr (Rendered ''index.html'' ''ok''),
               Inr (Rendered ''index.html''
                      ''Model started (background). Refresh to see result.''),
               Inr (Rendered ''index.html'' ''ok''),
               Inr (Rendered ''index.html''
                      ''Model started (background). Refresh to see result.'')] \<and>
      futures s = [FINISHED (Returned ''ok''), RUNNING, PENDING] \<and>
      future s = Some 2 \<and> active (futures s ! 2) \<and>
      worker s = Some 1 \<and> work_queue s = [2] \<and>
      length (filter active (futures s)) = 2 \<and>
      submit_model s = (Some 2, s))"
  by (simp add: racing_requests_def app_defs)

section \<open>A completed handle in the slot\<close>

text \<open>
  What \<^verbatim>\<open>_submit_model\<close> does with a completed handle in the slot, in general: it makes a
  new future, stores it in the slot and returns it; with a model that has \<^verbatim>\<open>run_model\<close>
  the new future is pending and queued, otherwise it is the finished future of lines 65
  and 66. So a \<^verbatim>\<open>GET /\<close> that comes after the job has finished never shows its outcome.
\<close>

lemma submit_model_replaces_completed:
  assumes "future a = Some h" and "h < length (futures a)" and "futures a ! h = FINISHED oc"
    and "submit_model a = (f, a')"
  shows "f = Some (length (futures a)) \<and> f \<noteq> Some h \<and> future a' = f \<and>
         futures a' ! h = FINISHED oc \<and>
         (if has_run_model a
          then futures a' = futures a @ [PENDING] \<and>
               work_queue a' = work_queue a @ [length (futures a)]
          else futures a' = futures a @ [FINISHED (Returned ''No model available'')] \<and>
               work_queue a' = work_queue a)"
  using assms
  by (auto simp: submit_model_def submit_locked_def slot_free_def executor_submit_def Let_def
        nth_append)

lemma home_after_completion:
  assumes "future a = Some h" and "fut_done (futures a ! h)" and "has_run_model a"
  shows "fst (home a) =
           Inr (Rendered ''index.html'' ''Model started (background). Refresh to see result.'') \<and>
         future (snd (home a)) = Some (length (futures a)) \<and>
         futures (snd (home a)) = futures a @ [PENDING] \<and>
         work_queue (snd (home a)) = work_queue a @ [length (futures a)]"
  using assms
  by (simp add: home_def home_rest_def submit_model_def submit_locked_def slot_free_def
        executor_submit_def Let_def)

text \<open>
  C3, where the code breaks it. On the application whose first job has finished, with the
  completed handle 0 in the slot, \<^verbatim>\<open>_submit_model\<close> returns the new handle 1, not handle
  0, and queues a new execution; \<^verbatim>\<open>home\<close> on that application renders
  \<^verbatim>\<open>Model started\<close>, not the result.
\<close>

theorem completed_handle_resubmitted:
  "future wine_done = Some 0 \<and>
   futures wine_done ! 0 = FINISHED (Returned ''Model trained successfully! Accuracy = 1.00'') \<and>
   fut_done (futures wine_done ! 0) \<and>
   fst (submit_model wine_done) = Some 1 \<and>
   fst (submit_model wine_done) \<noteq> Some 0 \<and>
   snd (submit_model wine_done) \<noteq> wine_done \<and>
   futures (snd (submit_model wine_done)) =
     [FINISHED (Returned ''Model trained successfully! Accuracy = 1.00''), PENDING] \<and>
   work_queue wine_done = [] \<and> work_queue (snd (submit_model wine_done)) = [1] \<and>
   fst (home wine_done) =
     Inr (Rendered ''index.html'' ''Model started (background). Refresh to see result.'')"
proof -
  have "work_queue (snd (submit_model wine_done)) = [1]"
    and "fst (submit_model wine_done) = Some 1"
    and "futures (snd (submit_model wine_done)) =
      [FINISHED (Returned ''Model trained successfully! Accuracy = 1.00''), PENDING]"
    and "fst (home wine_done) =
      Inr (Rendered ''index.html'' ''Model started (background). Refresh to see result.'')"
    by (simp_all add: wine_done_def app_defs)
  moreover have "work_queue wine_done = []" "future wine_done = Some 0"
    "futures wine_done ! 0 = FINISHED (Returned ''Model trained successfully! Accuracy = 1.00'')"
    using wine_done_eval by simp_all
  ultimately show ?thesis by auto
qed

section \<open>The status mapping\<close>

text \<open>
  C4, as the code has it. \<^verbatim>\<open>GET /status\<close> answers \<^verbatim>\<open>idle\<close> with no result for an empty
  slot, \<^verbatim>\<open>running\<close> with no result for a running future, \<^verbatim>\<open>unknown\<close> with no result for
  a pending future (submitted and not yet taken by the worker), \<^verbatim>\<open>done\<close> with the result
  string for a future finished with a result, and \<^verbatim>\<open>done\<close> with \<^verbatim>\<open>error: \<close> followed by
  the message for a future finished with an exception.
\<close>

theorem status_mapping:
  "(future a = None \<longrightarrow> fst (status a) = Json (Payload ''idle'' None)) \<and>
   (future a = Some h \<and> futures a ! h = RUNNING \<longrightarrow>
      fst (status a) = Json (Payload ''running'' None)) \<and>
   (future a = Some h \<and> futures a ! h = PENDING \<longrightarrow>
      fst (status a) = Json (Payload ''unknown'' None)) \<and>
   (future a = Some h \<and> futures a ! h = FINISHED (Returned s) \<longrightarrow>
      fst (status a) = Json (Payload ''done'' (Some s))) \<and>
   (future a = Some h \<and> futures a ! h = FINISHED (Raised m) \<longrightarrow>
      fst (status a) = Json (Payload ''done'' (Some (''error: '' @ m))))"
  by (simp add: status_def)

theorem status_mapping_witness:
  "future wine_app = None \<and> fst (status wine_app) = Json (Payload ''idle'' None) \<and>
   future wine_running = Some 0 \<and> futures wine_running ! 0 = RUNNING \<and>
   fst (status wine_running) = Json (Payload ''running'' None) \<and>
   future wine_pending = Some 0 \<and> futures wine_pending ! 0 = PENDING \<and>
   fst (status wine_pending) = Json (Payload ''unknown'' None) \<and>
   future wine_done = Some 0 \<and>
   futures wine_done ! 0 = FINISHED (Returned ''Model trained successfully! Accuracy = 1.00'') \<and>
   fst (status wine_done) =
     Json (Payload ''done'' (Some ''Model trained successfully! Accuracy = 1.00'')) \<and>
   future wine_failed = Some 0 \<and> futures wine_failed ! 0 = FINISHED (Raised ''bad data'') \<and>
   fst (status wine_failed) = Json (Payload ''done'' (Some ''error: bad data''))"
proof -
  have idle: "future wine_app = None" by (simp add: app_defs)
  show ?thesis
    using status_mapping [of wine_app 0 "''''" "''''"]
      status_mapping [of wine_running 0 "''''" "''''"]
      status_mapping [of wine_pending 0 "''''" "''''"]
      status_mapping [of wine_done 0 "''Model trained successfully! Accuracy = 1.00''" "''''"]
      status_mapping [of wine_failed 0 "''''" "''bad data''"]
      idle wine_running_eval wine_pending_eval wine_done_eval wine_failed_eval
    by simp
qed

text \<open>
  The claim as the specification states it fails for a pending future: right after a
  submission, before the worker has taken the job, the answer is \<^verbatim>\<open>unknown\<close>, not
  \<^verbatim>\<open>running\<close>.
\<close>

theorem status_pending_counterexample:
  "future wine_pending = Some 0 \<and> futures wine_pending ! 0 = PENDING \<and>
   fst (status wine_pending) = Json (Payload ''unknown'' None) \<and>
   fst (status wine_pending) \<noteq> Json (Payload ''running'' None)"
  by (simp add: wine_pending_def app_defs)

section \<open>Consuming a completed handle\<close>

lemma fresh_from_step: "fresh_from n a \<Longrightarrow> fresh_from n (step e a)"
  by (cases e)
     (auto simp: fresh_from_def submit_locked_def executor_submit_def home_clear_def status_def
        worker_start_def worker_finish_def wrap_def Let_def
        split: option.splits list.splits outcome.splits)

lemma fresh_from_run: "fresh_from n a \<Longrightarrow> fresh_from n (run es a)"
  unfolding run_def by (induction es arbitrary: a) (simp_all add: fresh_from_step)

lemma fresh_from_slot: "fresh_from n a \<Longrightarrow> h < n \<Longrightarrow> future a \<noteq> Some h"
  by (auto simp: fresh_from_def)

text \<open>
  C5, as the code has it. When \<^verbatim>\<open>home\<close> finds the handle \<^verbatim>\<open>_submit_model\<close> gave it
  completed, it renders the handle's outcome (the result, or \<^verbatim>\<open>Model error: \<close> and the
  message) and sets the slot to \<open>None\<close>. Whatever happens afterwards (\<open>es\<close>), the slot
  never holds that handle again, and the next call of \<^verbatim>\<open>_submit_model\<close> returns a new
  future; with a model that has \<^verbatim>\<open>run_model\<close> that future is pending and queued on the
  executor, a new execution. The outcome is not reported once only: a request that still
  holds the handle renders the same outcome whenever it runs the rest of \<^verbatim>\<open>home\<close>
  later. With no \<^verbatim>\<open>run_model\<close> and a free slot, \<^verbatim>\<open>home\<close> as a whole is such a request: it
  renders \<^verbatim>\<open>No model available\<close> and leaves the slot empty.
\<close>

theorem home_consumes_completed:
  assumes "h < length (futures a)" and "futures a ! h = FINISHED oc"
    and "home_rest (Some h) a = (r, a1)" and "submit_model a1 = (f, a2)"
  shows "r = Inr (Rendered ''index.html''
               (case oc of Returned s \<Rightarrow> s | Raised m \<Rightarrow> ''Model error: '' @ m)) \<and>
         a1 = a\<lparr>future := None\<rparr> \<and> future a1 = None \<and>
         future (run es a1) \<noteq> Some h \<and>
         fst (home_rest (Some h) (run es a1)) = r \<and>
         f = Some (length (futures a)) \<and> f \<noteq> Some h \<and>
         (has_run_model a \<longrightarrow>
            futures a2 = futures a @ [PENDING] \<and>
            work_queue a2 = work_queue a @ [length (futures a)]) \<and>
         (\<not> has_run_model a0 \<and> slot_free a0 \<longrightarrow>
            fst (home a0) = Inr (Rendered ''index.html'' ''No model available'') \<and>
            future (snd (home a0)) = None)"
proof -
  have insp: "home_inspect (FINISHED oc) =
      (case oc of Returned s \<Rightarrow> s | Raised m \<Rightarrow> ''Model error: '' @ m, True)"
    by (cases oc) simp_all
  from assms(2,3) insp
  have r: "r = Inr (Rendered ''index.html''
               (case oc of Returned s \<Rightarrow> s | Raised m \<Rightarrow> ''Model error: '' @ m))"
    and a1: "a1 = a\<lparr>future := None\<rparr>"
    by (auto simp: home_rest_def home_clear_def)
  have free: "slot_free a1" by (simp add: a1 slot_free_def)
  have m: "has_run_model a1 = has_run_model a" by (simp add: a1 has_run_model_def)
  have "fresh_from (length (futures a)) a1" by (simp add: a1 fresh_from_def)
  then have "fresh_from (length (futures a)) (run es a1)" by (rule fresh_from_run)
  then have never: "future (run es a1) \<noteq> Some h" using assms(1) by (rule fresh_from_slot)
  have "h < length (futures a1)" and "futures a1 ! h = FINISHED oc"
    using assms(1,2) by (simp_all add: a1)
  from finished_run [OF this, of es]
  have "futures (run es a1) ! h = FINISHED oc" by simp
  with insp r have again: "fst (home_rest (Some h) (run es a1)) = r"
    by (simp add: home_rest_def)
  from assms(4) free m have "f = Some (length (futures a))"
    and "has_run_model a \<longrightarrow>
          futures a2 = futures a @ [PENDING] \<and>
          work_queue a2 = work_queue a @ [length (futures a)]"
    by (auto simp: submit_model_def submit_locked_def executor_submit_def Let_def a1)
  moreover have "\<not> has_run_model a0 \<and> slot_free a0 \<longrightarrow>
      fst (home a0) = Inr (Rendered ''index.html'' ''No model available'') \<and>
      future (snd (home a0)) = None"
    by (simp add: home_def home_rest_def home_clear_def submit_model_def submit_locked_def
          Let_def)
  ultimately show ?thesis using r a1 never again assms(1) by auto
qed

theorem home_consumes_completed_witness:
  "0 < length (futures wine_done) \<and>
   futures wine_done ! 0 = FINISHED (Returned ''Model trained successfully! Accuracy = 1.00'') \<and>
   fst (home_rest (Some 0) wine_done) =
     Inr (Rendered ''index.html'' ''Model trained successfully! Accuracy = 1.00'') \<and>
   future (snd (home_rest (Some 0) wine_done)) = None \<and>
   future (run [Submit_or_get, Worker_start] (snd (home_rest (Some 0) wine_done))) \<noteq> Some 0 \<and>
   fst (home_rest (Some 0)
         (run [Submit_or_get, Worker_start] (snd (home_rest (Some 0) wine_done)))) =
     Inr (Rendered ''index.html'' ''Model trained successfully! Accuracy = 1.00'') \<and>
   has_run_model wine_done \<and>
   fst (submit_model (snd (home_rest (Some 0) wine_done))) = Some 1 \<and>
   futures (snd (submit_model (snd (home_rest (Some 0) wine_done)))) =
     [FINISHED (Returned ''Model trained successfully! Accuracy = 1.00''), PENDING] \<and>
   work_queue (snd (submit_model (snd (home_rest (Some 0) wine_done)))) = [1] \<and>
   \<not> has_run_model (new_app None None) \<and> slot_free (new_app None None) \<and>
   fst (home (new_app None None)) = Inr (Rendered ''index.html'' ''No model available'') \<and>
   future (snd (home (new_app None None))) = None"
  using home_consumes_completed
    [of 0 wine_done "Returned ''Model trained successfully! Accuracy = 1.00''"
        "fst (home_rest (Some 0) wine_done)" "snd (home_rest (Some 0) wine_done)"
        "fst (submit_model (snd (home_rest (Some 0) wine_done)))"
        "snd (submit_model (snd (home_rest (Some 0) wine_done)))"
        "[Submit_or_get, Worker_start]" "new_app None None"]
  by (simp add: wine_done_def app_defs)

text \<open>
  The claim as the specification states it fails where two requests hold one handle: with
  the requests of \<open>two_readers\<close>, A renders the result and clears the slot, and B, which
  holds the same handle, renders the same result after that and clears the slot again.
\<close>

theorem completed_result_reported_twice_counterexample:
  "(case two_readers of (fut_a, fut_b, page_a, page_b, s4, s5) \<Rightarrow>
      fut_a = Some 0 \<and> fut_b = Some 0 \<and>
      page_a = Inr (Rendered ''index.html'' ''ok'') \<and>
      page_b = Inr (Rendered ''index.html'' ''ok'') \<and>
      futures s4 = [FINISHED (Returned ''ok'')] \<and> future s4 = None \<and>
      futures s5 = [FINISHED (Returned ''ok'')] \<and> future s5 = None)"
  by (simp add: two_readers_def app_defs)

section \<open>A Trainable that raises\<close>

text \<open>
  What holds when the Trainable raises an exception with message \<open>m\<close>: the future the
  worker was running ends finished with that exception and the worker is idle again; a
  request that already holds this future renders \<^verbatim>\<open>Model error: \<close> followed by \<open>m\<close> in
  the rest of \<^verbatim>\<open>home\<close>, and while the future is in the slot \<^verbatim>\<open>status\<close> answers
  \<^verbatim>\<open>done\<close> with \<^verbatim>\<open>error: \<close> followed by \<open>m\<close>.
\<close>

lemma trainable_error_surfaced:
  assumes "worker a = Some h" and "h < length (futures a)" and "futures a ! h = RUNNING"
    and "a' = worker_finish (Raised m) a"
  shows "futures a' ! h = FINISHED (Raised m) \<and> worker a' = None \<and>
         fst (home_rest (Some h) a') = Inr (Rendered ''index.html'' (''Model error: '' @ m)) \<and>
         (future a = Some h \<longrightarrow>
            fst (status a') = Json (Payload ''done'' (Some (''error: '' @ m))))"
  using assms
  by (auto simp: worker_finish_def wrap_def home_rest_def status_def)

text \<open>
  C6, where the code breaks it. The job of \<open>wine_running\<close> raises an exception with the
  message \<^verbatim>\<open>bad data\<close>: its future is finished with that exception, in the slot, and
  \<^verbatim>\<open>status\<close> answers \<^verbatim>\<open>done\<close> with \<^verbatim>\<open>error: bad data\<close>. A \<^verbatim>\<open>GET /\<close> on that
  application does not render the message: \<^verbatim>\<open>_submit_model\<close> replaces the failed future
  by a new pending one, and \<^verbatim>\<open>home\<close> renders \<^verbatim>\<open>Model started\<close>.
\<close>

theorem failed_run_not_rendered:
  "wine_failed = worker_finish (Raised ''bad data'') wine_running \<and>
   future wine_failed = Some 0 \<and> futures wine_failed ! 0 = FINISHED (Raised ''bad data'') \<and>
   worker wine_failed = None \<and>
   fst (status wine_failed) = Json (Payload ''done'' (Some ''error: bad data'')) \<and>
   fst (home wine_failed) =
     Inr (Rendered ''index.html'' ''Model started (background). Refresh to see result.'') \<and>
   fst (home wine_failed) \<noteq> Inr (Rendered ''index.html'' ''Model error: bad data'') \<and>
   futures (snd (home wine_failed)) = [FINISHED (Raised ''bad data''), PENDING] \<and>
   future (snd (home wine_failed)) = Some 1 \<and> work_queue (snd (home wine_failed)) = [1]"
proof -
  have "wine_failed = worker_finish (Raised ''bad data'') wine_running"
    by (simp add: wine_failed_def wine_running_def run_def)
  moreover have "fst (status wine_failed) = Json (Payload ''done'' (Some ''error: bad data''))"
    and "fst (home wine_failed) =
      Inr (Rendered ''index.html'' ''Model started (background). Refresh to see result.'')"
    and "futures (snd (home wine_failed)) = [FINISHED (Raised ''bad data''), PENDING]"
    and "future (snd (home wine_failed)) = Some 1"
    and "work_queue (snd (home wine_failed)) = [1]"
    by (simp_all add: wine_failed_def app_defs)
  ultimately show ?thesis using wine_failed_eval by simp
qed

section \<open>No Trainable configured\<close>

lemma no_model_inv_step: "no_model_inv a \<Longrightarrow> no_model_inv (step e a)"
  by (cases e)
     (auto simp: no_model_inv_def has_run_model_def submit_locked_def slot_free_def home_clear_def
        status_def worker_start_def worker_finish_def list_all_length nth_append less_Suc_eq
        split: option.splits)

lemma no_model_inv_run: "no_model_inv a \<Longrightarrow> no_model_inv (run es a)"
  unfolding run_def by (induction es arbitrary: a) (simp_all add: no_model_inv_step)

lemma no_model_inv_new:
  "\<not> has_run_model (new_app cfg imported) \<Longrightarrow> no_model_inv (new_app cfg imported)"
  by (simp add: no_model_inv_def) (simp add: new_app_def)

lemma no_model_inv_free: "no_model_inv a \<Longrightarrow> slot_free a"
  by (auto simp: no_model_inv_def slot_free_def list_all_length split: option.splits)

text \<open>
  C7. Where the application has no model module, or one without \<^verbatim>\<open>run_model\<close>, then after
  any run \<open>es\<close> of requests and worker steps, a call of \<^verbatim>\<open>_submit_model\<close> returns a new
  future that is already finished with the result \<^verbatim>\<open>No model available\<close>; the executor's
  queue is empty before and after the call, its worker is idle, and nothing is logged.
\<close>

theorem no_model_completed_handle:
  assumes "\<not> has_run_model (new_app cfg imported)"
    and "a = run es (new_app cfg imported)"
    and "submit_model a = (f, a')"
  shows "f = Some (length (futures a)) \<and>
         futures a' = futures a @ [FINISHED (Returned ''No model available'')] \<and>
         futures a' ! length (futures a) = FINISHED (Returned ''No model available'') \<and>
         work_queue a' = [] \<and> work_queue a = [] \<and> worker a' = None \<and> logger a' = logger a"
proof -
  have inv: "no_model_inv a"
    using assms(1,2) by (simp add: no_model_inv_run no_model_inv_new)
  then have "slot_free a" and "\<not> has_run_model a" and "work_queue a = []" and "worker a = None"
    by (simp_all add: no_model_inv_free) (simp_all add: no_model_inv_def)
  with assms(3) show ?thesis
    by (auto simp: submit_model_def submit_locked_def Let_def)
qed

theorem no_model_completed_handle_witness:
  "\<not> has_run_model (new_app None None) \<and>
   fst (submit_model (run [Submit_or_get, Status, Worker_start] (new_app None None))) = Some 1 \<and>
   futures (snd (submit_model (run [Submit_or_get, Status, Worker_start] (new_app None None)))) =
     [FINISHED (Returned ''No model available''), FINISHED (Returned ''No model available'')] \<and>
   work_queue (snd (submit_model (run [Submit_or_get, Status, Worker_start] (new_app None None))))
     = [] \<and>
   \<not> has_run_model (new_app None (Some [''load_data''])) \<and>
   fst (submit_model (run [] (new_app None (Some [''load_data''])))) = Some 0 \<and>
   futures (snd (submit_model (run [] (new_app None (Some [''load_data''])))))
     = [FINISHED (Returned ''No model available'')]"
proof -
  have len1: "length (futures (run [Submit_or_get, Status, Worker_start] (new_app None None))) = 1"
    and fs1: "futures (run [Submit_or_get, Status, Worker_start] (new_app None None)) =
       [FINISHED (Returned ''No model available'')]"
    by (simp_all add: app_defs)
  have len2: "futures (run [] (new_app None (Some [''load_data'']))) = []"
    by (simp add: app_defs)
  have nm1: "\<not> has_run_model (new_app None None)"
    and nm2: "\<not> has_run_model (new_app None (Some [''load_data'']))"
    by (simp_all add: has_run_model_def hasattr_def new_app_def)
  show ?thesis
    using no_model_completed_handle
      [of None None "run [Submit_or_get, Status, Worker_start] (new_app None None)"
          "[Submit_or_get, Status, Worker_start]"
          "fst (submit_model (run [Submit_or_get, Status, Worker_start] (new_app None None)))"
          "snd (submit_model (run [Submit_or_get, Status, Worker_start] (new_app None None)))"]
      no_model_completed_handle
      [of None "Some [''load_data'']" "run [] (new_app None (Some [''load_data'']))" "[]"
          "fst (submit_model (run [] (new_app None (Some [''load_data'']))))"
          "snd (submit_model (run [] (new_app None (Some [''load_data'']))))"]
      nm1 nm2 fs1 len2
    by simp
qed

section \<open>Polling the status\<close>

lemma poll_status: "poll n a = (replicate n (fst (status a)), a)"
  by (induction n) (simp_all add: status_def)

text \<open>
  C8. \<^verbatim>\<open>GET /status\<close> leaves the application, and so the slot, as it was; called \<open>n\<close>
  times in a row it gives the same response \<open>n\<close> times.
\<close>

theorem status_never_modifies:
  "snd (status a) = a \<and> future (snd (status a)) = future a \<and>
   poll n a = (replicate n (fst (status a)), a)"
  by (simp add: poll_status) (simp add: status_def)

section \<open>Completed outcomes stay\<close>

text \<open>
  C9. A future that is finished with an outcome is finished with the same outcome after
  any run \<open>es\<close> of requests and worker steps, and what \<^verbatim>\<open>status\<close> and \<^verbatim>\<open>home\<close> read from
  it is the same as before.
\<close>

theorem completed_outcome_immutable:
  assumes "h < length (futures a)" and "futures a ! h = FINISHED oc"
  shows "h < length (futures (run es a)) \<and> futures (run es a) ! h = FINISHED oc \<and>
         status_payload (futures (run es a) ! h) = status_payload (futures a ! h) \<and>
         home_inspect (futures (run es a) ! h) = home_inspect (futures a ! h)"
  using finished_run [OF assms, of es] assms by simp

theorem completed_outcome_immutable_witness:
  "0 < length (futures wine_failed) \<and> futures wine_failed ! 0 = FINISHED (Raised ''bad data'') \<and>
   futures (run [Status, Submit_or_get, Worker_start, Home_clear, Worker_finish (Returned ''ok''),
                 Submit_or_get] wine_failed) ! 0 = FINISHED (Raised ''bad data'')"
  using completed_outcome_immutable
    [of 0 wine_failed "Raised ''bad data''"
        "[Status, Submit_or_get, Worker_start, Home_clear, Worker_finish (Returned ''ok''),
          Submit_or_get]"]
    wine_failed_eval
  by simp

section \<open>The clearing step\<close>

text \<open>
  C10. The clearing step of \<^verbatim>\<open>home\<close> sets the slot to \<open>None\<close> whatever the slot holds.
  When a request has its handle \<open>h\<close> from the slot and finds it completed, and another
  request runs \<^verbatim>\<open>_submit_model\<close> before the first one clears, the slot holds a different,
  new handle at the time of the clearing step, which removes it from the slot; the new
  future and its queued work item stay as they are.
\<close>

theorem home_clear_discards_other_handle:
  assumes "future a = Some h" and "h < length (futures a)" and "futures a ! h = FINISHED oc"
    and "b = submit_locked a"
  shows "future (home_clear c) = None \<and>
         snd (home_inspect (futures b ! h)) \<and>
         future b = Some (length (futures a)) \<and> future b \<noteq> Some h \<and>
         snd (home_rest (Some h) b) = home_clear b \<and>
         future (home_clear b) = None \<and> futures (home_clear b) = futures b \<and>
         work_queue (home_clear b) = work_queue b"
  using assms
  by (cases oc)
     (auto simp: submit_locked_def slot_free_def executor_submit_def Let_def
        nth_append home_clear_def home_rest_def)

theorem home_clear_discards_other_handle_witness:
  "future wine_done = Some 0 \<and> 0 < length (futures wine_done) \<and>
   futures wine_done ! 0 = FINISHED (Returned ''Model trained successfully! Accuracy = 1.00'') \<and>
   future (submit_locked wine_done) = Some 1 \<and>
   future (home_clear (submit_locked wine_done)) = None \<and>
   futures (home_clear (submit_locked wine_done)) =
     [FINISHED (Returned ''Model trained successfully! Accuracy = 1.00''), PENDING] \<and>
   work_queue (home_clear (submit_locked wine_done)) = [1]"
proof -
  have "futures (submit_locked wine_done) =
      [FINISHED (Returned ''Model trained successfully! Accuracy = 1.00''), PENDING]"
    and "work_queue (submit_locked wine_done) = [1]"
    by (simp_all add: wine_done_def app_defs)
  then show ?thesis
    using home_clear_discards_other_handle
      [of wine_done 0 "Returned ''Model trained successfully! Accuracy = 1.00''"
          "submit_locked wine_done" "submit_locked wine_done"]
      wine_done_eval
    by simp
qed

text \<open>
  The same step also meets line 68: \<^verbatim>\<open>_submit_model\<close> reads the slot for its return value
  after it has released the lock, so a clearing step of another request in between makes
  it return \<open>None\<close>, and \<^verbatim>\<open>home\<close> then fails on \<^verbatim>\<open>fut.running()\<close>.
\<close>

lemma return_after_clear:
  "future (home_clear (submit_locked a)) = None \<and>
   fst (home_rest (future (home_clear (submit_locked a))) (home_clear (submit_locked a))) =
     Inl (AttributeError ''running'')"
  by (simp add: home_clear_def home_rest_def)

end
